theory Spec2Isabelle
  imports Complex_Main "HOL-Library.Word"
begin

section \<open>Flight tracker (src/app/page.tsx): data model\<close>

text \<open>
  The page polls the OpenSky feed, picks one aircraft out of the snapshot and derives the
  values it displays. A nullable number of the feed is a \<open>real option\<close> with \<open>None\<close> for
  \<open>null\<close>.

  JavaScript numbers are modelled as HOL reals: exact arithmetic, with no rounding error
  and no NaN. The selection, the region label and the state machine of the polls only
  compare and store numbers, and there the reals and IEEE doubles agree. The haversine
  distance is different: in doubles the rounding of the sines and cosines can push the
  argument \<open>a\<close> of \<open>Math.sqrt(1 - a)\<close> slightly above 1 for nearly antipodal points, and
  the page then computes NaN, which the exact \<open>calculateDistance\<close> below never does.
  Facts about \<open>calculateDistance\<close> are therefore facts of exact arithmetic.

  A JavaScript string is a sequence of UTF-16 code units.
\<close>

type_synonym js_string = "16 word list"

text \<open>A string literal of the source (ASCII), as code units.\<close>

definition utf16 :: "string \<Rightarrow> js_string" where
  "utf16 s = map of_char s"

text \<open>
  One entry of \<open>data.states\<close>. The source reads it by index; the field names are those of
  the comment above the loop: index 0 icao24, 1 callsign, 2 origin_country,
  3 time_position, 4 last_contact, 5 longitude, 6 latitude, 7 baro_altitude, 8 on_ground,
  9 velocity.
\<close>

record RawAircraftState =
  icao24 :: js_string
  state_callsign :: "js_string option"
  origin_country :: js_string
  time_position :: "real option"
  last_contact :: "real option"
  longitude :: "real option"
  latitude :: "real option"
  baro_altitude :: "real option"
  on_ground :: bool
  velocity :: "real option"

record FlightData =
  currentLat :: "real option"
  currentLon :: "real option"
  altitude :: real
  speed :: real
  progress :: real
  currentRegion :: js_string
  isLive :: bool
  callsign :: "js_string option"
  onGround :: "bool option"

record GeoPoint =
  lat :: real
  lon :: real

definition departure :: GeoPoint where
  "departure = \<lparr>lat = 51.47, lon = - 0.4543\<rparr>"

definition arrival :: GeoPoint where
  "arrival = \<lparr>lat = 23.8103, lon = 90.4125\<rparr>"

section \<open>JavaScript primitives used by the page\<close>

text \<open>Truthiness of a nullable number: \<open>null\<close> and \<open>0\<close> are falsy.\<close>

fun truthy_num :: "real option \<Rightarrow> bool" where
  "truthy_num None = False"
| "truthy_num (Some x) = (x \<noteq> 0)"

text \<open>\<open>v > k\<close> for a nullable number: \<open>null\<close> converts to \<open>0\<close>.\<close>

fun js_gt :: "real option \<Rightarrow> real \<Rightarrow> bool" where
  "js_gt None k = (0 > k)"
| "js_gt (Some x) k = (x > k)"

text \<open>
  What \<open>String.prototype.trim\<close> removes: the WhiteSpace code points (TAB, VT, FF, the
  byte order mark U+FEFF and the space separators U+0020, U+00A0, U+1680, U+2000 to U+200A,
  U+202F, U+205F, U+3000) and the LineTerminator code points (LF, CR, U+2028, U+2029).
  All of them are single code units.
\<close>

definition js_whitespace :: "16 word \<Rightarrow> bool" where
  "js_whitespace c =
     (c \<in> set [0x0009, 0x000A, 0x000B, 0x000C, 0x000D, 0x0020, 0x00A0, 0x1680,
                0x2028, 0x2029, 0x202F, 0x205F, 0x3000, 0xFEFF]
      \<or> (0x2000 \<le> c \<and> c \<le> 0x200A))"

definition trim :: "js_string \<Rightarrow> js_string" where
  "trim s = rev (dropWhile js_whitespace (rev (dropWhile js_whitespace s)))"

definition startsWith :: "js_string \<Rightarrow> js_string \<Rightarrow> bool" where
  "startsWith s p = (take (length p) s = p)"

text \<open>\<open>s.includes(sub)\<close>: \<open>sub\<close> occurs in \<open>s\<close> at some position.\<close>

fun includes_str :: "js_string \<Rightarrow> js_string \<Rightarrow> bool" where
  "includes_str [] sub = (sub = [])"
| "includes_str (c # cs) sub = (startsWith (c # cs) sub \<or> includes_str cs sub)"

text \<open>\<open>Math.atan2(y, x)\<close> on the reals.\<close>

definition atan2 :: "real \<Rightarrow> real \<Rightarrow> real" where
  "atan2 y x =
     (if 0 < x then arctan (y / x)
      else if x < 0 then (if 0 \<le> y then arctan (y / x) + pi else arctan (y / x) - pi)
      else if 0 < y then pi / 2
      else if y < 0 then - (pi / 2)
      else 0)"

section \<open>Flight selection (the loop of fetchFlightData, lines 133-157)\<close>

text \<open>\<open>const callsign = state[1] ? state[1].trim() : ""\<close>\<close>

definition trimmed_callsign :: "RawAircraftState \<Rightarrow> js_string" where
  "trimmed_callsign state =
     (case state_callsign state of
        None \<Rightarrow> []
      | Some s \<Rightarrow> (if s = [] then [] else trim s))"

text \<open>\<open>!onGround && lat && lon && altitude > 6000\<close>\<close>

definition cruise_candidate :: "RawAircraftState \<Rightarrow> bool" where
  "cruise_candidate state =
     (\<not> on_ground state \<and> truthy_num (latitude state) \<and> truthy_num (longitude state)
      \<and> js_gt (baro_altitude state) 6000)"

text \<open>\<open>callsign.includes("BG202") || callsign.includes("BBC202")\<close>\<close>

definition exact_callsign :: "js_string \<Rightarrow> bool" where
  "exact_callsign cs = (includes_str cs (utf16 ''BG202'') \<or> includes_str cs (utf16 ''BBC202''))"

text \<open>
  The \<open>for\<close> loop over \<open>data.states\<close>, with \<open>targetFlight\<close> as the accumulator; \<open>break\<close>
  returns without looking at the rest.
\<close>

fun scanStates :: "RawAircraftState list \<Rightarrow> RawAircraftState option \<Rightarrow> RawAircraftState option" where
  "scanStates [] targetFlight = targetFlight"
| "scanStates (state # rest) targetFlight =
     (if cruise_candidate state then
        (if exact_callsign (trimmed_callsign state) then Some state
         else if startsWith (trimmed_callsign state) (utf16 ''BBC'') \<and> targetFlight = None
           then scanStates rest (Some state)
         else scanStates rest targetFlight)
      else scanStates rest targetFlight)"

definition selectTrackedFlight :: "RawAircraftState list \<Rightarrow> RawAircraftState option" where
  "selectTrackedFlight states = scanStates states None"

text \<open>The two kinds of match, as the loop tests them on one record.\<close>

definition exact_match :: "RawAircraftState \<Rightarrow> bool" where
  "exact_match state = (cruise_candidate state \<and> exact_callsign (trimmed_callsign state))"

definition fallback_match :: "RawAircraftState \<Rightarrow> bool" where
  "fallback_match state = (cruise_candidate state \<and> startsWith (trimmed_callsign state) (utf16 ''BBC''))"

section \<open>Geometry and region (lines 67-99)\<close>

text \<open>\<open>if (!lat || !lon) return "Unknown"\<close>, then the longitude thresholds in order.\<close>

definition getCurrentRegion :: "real \<Rightarrow> real \<Rightarrow> js_string" where
  "getCurrentRegion la lo =
     (if la = 0 \<or> lo = 0 then utf16 ''Unknown''
      else if lo < 10 then utf16 ''Western Europe''
      else if lo < 30 then utf16 ''Eastern Europe''
      else if lo < 45 then utf16 ''Turkey/Middle East''
      else if lo < 60 then utf16 ''Iran''
      else if lo < 70 then utf16 ''Central Asia''
      else if lo < 80 then utf16 ''Pakistan''
      else if lo < 88 then utf16 ''India''
      else utf16 ''Bangladesh'')"

text \<open>The argument \<open>a\<close> of the two square roots in the haversine formula.\<close>

definition haversine_a :: "real \<Rightarrow> real \<Rightarrow> real \<Rightarrow> real \<Rightarrow> real" where
  "haversine_a lat1 lon1 lat2 lon2 =
     (let dLat = ((lat2 - lat1) * pi) / 180;
          dLon = ((lon2 - lon1) * pi) / 180
      in sin (dLat / 2) * sin (dLat / 2) +
         cos ((lat1 * pi) / 180) * cos ((lat2 * pi) / 180) * sin (dLon / 2) * sin (dLon / 2))"

definition calculateDistance :: "real \<Rightarrow> real \<Rightarrow> real \<Rightarrow> real \<Rightarrow> real" where
  "calculateDistance lat1 lon1 lat2 lon2 =
     (let R = 6371;
          a = haversine_a lat1 lon1 lat2 lon2;
          c = 2 * atan2 (sqrt a) (sqrt (1 - a))
      in R * c)"

section \<open>Building the displayed state (lines 160-222)\<close>

text \<open>\<open>Math.min(distanceFromDeparture / totalDistance, 1)\<close>\<close>

definition progressFraction :: "real \<Rightarrow> real \<Rightarrow> real" where
  "progressFraction la lo =
     (let totalDistance = calculateDistance (lat departure) (lon departure) (lat arrival) (lon arrival);
          distanceFromDeparture = calculateDistance (lat departure) (lon departure) la lo
      in min (distanceFromDeparture / totalDistance) 1)"

text \<open>
  The object passed to \<open>setFlightData\<close>, for a record whose coordinates are \<open>la\<close>, \<open>lo\<close>.
  \<open>x ? Math.round(x * k) : 0\<close> is \<open>0\<close> for \<open>null\<close> and for \<open>0\<close>; \<open>Math.round\<close> is
  \<open>\<lfloor>x + 1/2\<rfloor>\<close>, which is HOL's \<open>round\<close>.
\<close>

definition buildFlightData :: "RawAircraftState \<Rightarrow> real \<Rightarrow> real \<Rightarrow> FlightData" where
  "buildFlightData target la lo =
     \<lparr>currentLat = Some la,
      currentLon = Some lo,
      altitude = (case baro_altitude target of
                    None \<Rightarrow> 0
                  | Some baroAltitude \<Rightarrow>
                      (if baroAltitude = 0 then 0 else of_int (round (baroAltitude * 3.28084)))),
      speed = (case velocity target of
                 None \<Rightarrow> 0
               | Some v \<Rightarrow> (if v = 0 then 0 else of_int (round (v * 2.23694)))),
      progress = progressFraction la lo,
      currentRegion = getCurrentRegion la lo,
      isLive = True,
      callsign = Some (case state_callsign target of
                         None \<Rightarrow> utf16 ''Unknown''
                       | Some s \<Rightarrow> (if trim s = [] then utf16 ''Unknown'' else trim s)),
      onGround = Some (on_ground target)\<rparr>"

section \<open>One poll: fetchFlightData (lines 102-233)\<close>

text \<open>What a \<open>catch\<close> receives: an \<open>Error\<close> with its message, or some other value.\<close>

datatype thrown = ErrorObject js_string | OtherValue

text \<open>
  What the request can do: \<open>fetch\<close> rejects, the status is not a success, \<open>json()\<close>
  rejects, or a payload arrives whose \<open>states\<close> is absent (\<open>None\<close>) or an array.
\<close>

datatype feed_outcome =
    FetchRejected thrown
  | NotOk
  | JsonRejected thrown
  | Payload "RawAircraftState list option"

record AppState =
  flightData :: FlightData
  loading :: bool
  error :: "js_string option"
  lastUpdate :: "nat option"

definition initialState :: AppState where
  "initialState =
     \<lparr>flightData = \<lparr>currentLat = None, currentLon = None, altitude = 0, speed = 0,
                     progress = 0, currentRegion = utf16 ''Searching...'', isLive = False,
                     callsign = None, onGround = None\<rparr>,
      loading = True, error = None, lastUpdate = None\<rparr>"

text \<open>The \<open>catch\<close> block.\<close>

definition on_throw :: "thrown \<Rightarrow> AppState \<Rightarrow> AppState" where
  "on_throw err st =
     (case err of
        ErrorObject message \<Rightarrow> st\<lparr>error := Some message, loading := False\<rparr>
      | OtherValue \<Rightarrow> st\<lparr>error := Some (utf16 ''Unknown error occurred''), loading := False\<rparr>)"

text \<open>One call of \<open>fetchFlightData\<close>; \<open>now\<close> is the value of \<open>new Date()\<close>.\<close>

definition fetchFlightData :: "nat \<Rightarrow> feed_outcome \<Rightarrow> AppState \<Rightarrow> AppState" where
  "fetchFlightData now outcome st =
     (case outcome of
        FetchRejected err \<Rightarrow> on_throw err st
      | NotOk \<Rightarrow> on_throw (ErrorObject (utf16 ''Failed to fetch flight data'')) st
      | JsonRejected err \<Rightarrow> on_throw err st
      | Payload None \<Rightarrow>
          st\<lparr>error := Some (utf16 ''No Biman Bangladesh flights currently tracked - BG202 may not be in the air''),
             loading := False\<rparr>
      | Payload (Some states) \<Rightarrow>
          (if states = [] then
             st\<lparr>error := Some (utf16 ''No Biman Bangladesh flights currently tracked - BG202 may not be in the air''),
                loading := False\<rparr>
           else
             (case selectTrackedFlight states of
                None \<Rightarrow>
                  st\<lparr>error := Some (utf16 ''BG202 not currently in flight - Flight may be scheduled later''),
                     loading := False\<rparr>
              | Some target \<Rightarrow>
                  (case (latitude target, longitude target) of
                     (Some la, Some lo) \<Rightarrow>
                       (if la \<noteq> 0 \<and> lo \<noteq> 0 then
                          st\<lparr>flightData := buildFlightData target la lo,
                             lastUpdate := Some now, loading := False, error := None\<rparr>
                        else st)
                   | _ \<Rightarrow> st))))"

text \<open>The states the page goes through: the initial one, then one poll after another.\<close>

fun run_polls :: "(nat \<times> feed_outcome) list \<Rightarrow> AppState \<Rightarrow> AppState" where
  "run_polls [] st = st"
| "run_polls ((now, outcome) # rest) st = run_polls rest (fetchFlightData now outcome st)"

section \<open>Estimated time of arrival: calculateETA (lines 243-261)\<close>

record ETA =
  hours :: int
  minutes :: int

definition calculateETA :: "FlightData \<Rightarrow> ETA" where
  "calculateETA fd =
     (if \<not> truthy_num (currentLat fd) \<or> speed fd = 0 \<or> speed fd = 0
      then \<lparr>hours = 0, minutes = 0\<rparr>
      else
        (let distanceToDestination =
               calculateDistance (case currentLat fd of Some x \<Rightarrow> x | None \<Rightarrow> 0)
                                 (case currentLon fd of Some x \<Rightarrow> x | None \<Rightarrow> 0)
                                 (lat arrival) (lon arrival);
             speedKmh = speed fd * 1.60934;
             hoursRemaining = distanceToDestination / speedKmh;
             h = floor hoursRemaining;
             m = round ((hoursRemaining - of_int h) * 60)
         in \<lparr>hours = h, minutes = m\<rparr>))"

section \<open>Sample feed records\<close>

definition bg202 :: RawAircraftState where
  "bg202 =
     \<lparr>icao24 = utf16 ''70c0a1'', state_callsign = Some (utf16 ''BG202   ''), origin_country = utf16 ''Bangladesh'',
      time_position = Some 1766000000, last_contact = Some 1766000001,
      longitude = Some 45.5, latitude = Some 38.25, baro_altitude = Some 10000,
      on_ground = False, velocity = Some 250\<rparr>"

definition bbc777 :: RawAircraftState where
  "bbc777 = bg202\<lparr>icao24 := utf16 ''70c0b2'', state_callsign := Some (utf16 ''BBC777  ''),
                   longitude := Some 77.25, latitude := Some 28.5, baro_altitude := Some 11000\<rparr>"

definition bbc303 :: RawAircraftState where
  "bbc303 = bg202\<lparr>icao24 := utf16 ''70c0c3'', state_callsign := Some (utf16 ''BBC303  ''),
                   longitude := Some 88.5, latitude := Some 22.75, baro_altitude := Some 9500\<rparr>"

text \<open>BG202 on the ground at Heathrow, and BG202 airborne at exactly 6000 m.\<close>

definition bg202_ground :: RawAircraftState where
  "bg202_ground = bg202\<lparr>longitude := Some (- 0.4543), latitude := Some 51.47,
                         baro_altitude := None, on_ground := True, velocity := Some 0\<rparr>"

definition bg202_at_6000 :: RawAircraftState where
  "bg202_at_6000 = bg202\<lparr>baro_altitude := Some 6000\<rparr>"

text \<open>BG202 at cruise altitude, reported exactly on the Greenwich meridian.\<close>

definition bg202_meridian :: RawAircraftState where
  "bg202_meridian = bg202\<lparr>longitude := Some 0, latitude := Some 51.25\<rparr>"

text \<open>
  BG202 at cruise altitude 7.2 degrees of latitude due north of the arrival point, at
  223.5 m/s (500 mph when rounded).
\<close>

definition bg202_north :: RawAircraftState where
  "bg202_north = bg202\<lparr>longitude := Some 90.4125, latitude := Some 31.0103,
                        baro_altitude := Some 10668, velocity := Some 223.5\<rparr>"

text \<open>
  BBC303 with a no-break space and a space before the callsign and an ideographic space
  after it.
\<close>

definition bbc303_padded :: RawAircraftState where
  "bbc303_padded =
     bbc303\<lparr>state_callsign := Some ([0x00A0, 0x0020] @ utf16 ''BBC303'' @ [0x3000])\<rparr>"

text \<open>BG202 at the longitude of \<open>bg202\<close> and another latitude, and at longitudes 5, 65 and 91.\<close>

definition bg202_south :: RawAircraftState where
  "bg202_south = bg202\<lparr>latitude := Some 30\<rparr>"

definition bg202_lon5 :: RawAircraftState where
  "bg202_lon5 = bg202\<lparr>longitude := Some 5, latitude := Some 50.5\<rparr>"

definition bg202_lon65 :: RawAircraftState where
  "bg202_lon65 = bg202\<lparr>longitude := Some 65, latitude := Some 36\<rparr>"

definition bg202_lon91 :: RawAircraftState where
  "bg202_lon91 = bg202\<lparr>longitude := Some 91, latitude := Some 24.5\<rparr>"


text \<open>
  The region rule in the words of the specification: a fixed ascending sequence of
  exclusive upper bounds on the longitude, each with its region, and the route's final
  region for a longitude below none of them.
\<close>

definition region_thresholds :: "(real \<times> js_string) list" where
  "region_thresholds =
     [(10, utf16 ''Western Europe''), (30, utf16 ''Eastern Europe''), (45, utf16 ''Turkey/Middle East''),
      (60, utf16 ''Iran''), (70, utf16 ''Central Asia''), (80, utf16 ''Pakistan''), (88, utf16 ''India'')]"

definition region_by_threshold :: "real \<Rightarrow> js_string" where
  "region_by_threshold lo =
     (case List.find (\<lambda>(bound, name). lo < bound) region_thresholds of
        Some (bound, name) \<Rightarrow> name
      | None \<Rightarrow> utf16 ''Bangladesh'')"

lemmas selector_defs =
  exact_match_def fallback_match_def cruise_candidate_def exact_callsign_def
  trimmed_callsign_def trim_def js_whitespace_def startsWith_def utf16_def

section \<open>The selector\<close>

text \<open>
  The loop returns the first exact match if there is one; otherwise the fallback it was
  started with, if any; otherwise the first fallback match of the feed.
\<close>

lemma scanStates_find:
  "scanStates xs tf =
     (case List.find exact_match xs of
        Some e \<Rightarrow> Some e
      | None \<Rightarrow> (case tf of Some f \<Rightarrow> Some f | None \<Rightarrow> List.find fallback_match xs))"
  by (induction xs arbitrary: tf) (auto simp: exact_match_def fallback_match_def split: option.splits)

lemma find_append_first:
  "\<forall>x\<in>set pre. \<not> P x \<Longrightarrow> P r \<Longrightarrow> List.find P (pre @ r # post) = Some r"
  by (induction pre) auto

lemma find_none_all: "\<forall>x\<in>set xs. \<not> P x \<Longrightarrow> List.find P xs = None"
  by (simp add: find_None_iff)

lemma scanStates_result:
  "scanStates xs tf = Some r \<Longrightarrow> tf = Some r \<or> (r \<in> set xs \<and> cruise_candidate r)"
  by (induction xs arbitrary: tf) (auto split: if_splits)

text \<open>
  C1 (as amended): if the feed contains an airborne record whose latitude and longitude are
  both present and nonzero, whose barometric altitude is above 6000 m and whose trimmed
  callsign contains "BG202" or "BBC202", and no record before it is such an exact match,
  then selectTrackedFlight returns that record, whatever precedes it (fallback candidates
  included) and whatever follows it.
\<close>

theorem exact_match_selected:
  assumes "\<forall>x\<in>set pre. \<not> exact_match x"
    and "\<not> on_ground r"
    and "latitude r = Some la" and "la \<noteq> 0"
    and "longitude r = Some lo" and "lo \<noteq> 0"
    and "baro_altitude r = Some al" and "al > 6000"
    and "includes_str (trimmed_callsign r) (utf16 ''BG202'') \<or> includes_str (trimmed_callsign r) (utf16 ''BBC202'')"
  shows "selectTrackedFlight (pre @ r # post) = Some r"
proof -
  have "exact_match r"
    using assms(2-) by (simp add: exact_match_def cruise_candidate_def exact_callsign_def)
  with assms(1) have "List.find exact_match (pre @ r # post) = Some r"
    by (rule find_append_first)
  then show ?thesis
    by (simp add: selectTrackedFlight_def scanStates_find)
qed

theorem exact_match_selected_witness:
  "\<not> exact_match bbc777 \<and> \<not> on_ground bg202
   \<and> latitude bg202 = Some 38.25 \<and> longitude bg202 = Some 45.5 \<and> baro_altitude bg202 = Some 10000
   \<and> includes_str (trimmed_callsign bg202) (utf16 ''BG202'')
   \<and> selectTrackedFlight ([bbc777] @ bg202 # [bbc303]) = Some bg202
   \<and> selectTrackedFlight ([] @ bg202 # [bbc777]) = Some bg202"
  using exact_match_selected [of "[bbc777]" bg202 "38.25" "45.5" 10000 "[bbc303]"]
    exact_match_selected [of "[]" bg202 "38.25" "45.5" 10000 "[bbc777]"]
  by (simp add: bg202_def bbc777_def bbc303_def selector_defs)

text \<open>
  C1 as stated fails: an airborne BG202 record at 10000 m whose longitude is exactly 0 has
  both coordinates, yet it is not selected; the fallback behind it is.
\<close>

theorem exact_match_zero_longitude_counterexample:
  "\<not> on_ground bg202_meridian \<and> latitude bg202_meridian = Some 51.25
   \<and> longitude bg202_meridian = Some 0 \<and> baro_altitude bg202_meridian = Some 10000
   \<and> trimmed_callsign bg202_meridian = utf16 ''BG202''
   \<and> includes_str (trimmed_callsign bg202_meridian) (utf16 ''BG202'')
   \<and> selectTrackedFlight [bg202_meridian] = None
   \<and> selectTrackedFlight [bg202_meridian, bbc777] = Some bbc777"
  by (simp add: bg202_def bbc777_def bg202_meridian_def selector_defs selectTrackedFlight_def)

text \<open>Leading white space of any kind is gone before the prefix test.\<close>

lemma dropWhile_all:
  "\<forall>c\<in>set ws. P c \<Longrightarrow> \<not> P x \<Longrightarrow> dropWhile P (ws @ x # xs) = x # xs"
  by (induction ws) auto

lemma rev_dropWhile_keep:
  "\<not> P x \<Longrightarrow> rev (dropWhile P (rev (ys @ x # zs))) = ys @ x # rev (dropWhile P (rev zs))"
  by (simp add: dropWhile_append3)

lemma trim_leading_BBC:
  assumes "\<forall>c\<in>set ws. js_whitespace c"
  shows "startsWith (trim (ws @ utf16 ''BBC'' @ rest)) (utf16 ''BBC'')"
proof -
  let ?B = "of_char CHR ''B'' :: 16 word" and ?C = "of_char CHR ''C'' :: 16 word"
  have nB: "\<not> js_whitespace ?B" and nC: "\<not> js_whitespace ?C"
    by (simp_all add: js_whitespace_def)
  have s: "ws @ utf16 ''BBC'' @ rest = ws @ ?B # (?B # ?C # rest)"
    by (simp add: utf16_def)
  have d: "dropWhile js_whitespace (ws @ utf16 ''BBC'' @ rest) = [?B, ?B] @ ?C # rest"
    unfolding s using dropWhile_all [OF assms nB] by simp
  show ?thesis
    unfolding trim_def d rev_dropWhile_keep [where P = js_whitespace and x = ?C, OF nC]
    by (simp add: startsWith_def utf16_def)
qed

lemma fallback_match_callsign:
  "fallback_match x \<longleftrightarrow>
     cruise_candidate x \<and> (\<exists>s. state_callsign x = Some s \<and> startsWith (trim s) (utf16 ''BBC''))"
  by (cases "state_callsign x")
     (auto simp: fallback_match_def trimmed_callsign_def startsWith_def utf16_def trim_def)

text \<open>
  C2: when no record of the feed is an exact match, selectTrackedFlight returns the first
  record in feed order that passes the rule-1 filter and whose trimmed callsign starts with
  "BBC"; and once a fallback \<open>f\<close> is latched, the rest of the scan returns \<open>f\<close> unless it
  meets an exact match, which it then returns. The prefix is tested on the trimmed
  callsign: a record is a fallback match exactly when it passes the filter and its callsign
  is present and starts with "BBC" once trimmed, and white space of any kind before "BBC"
  does not prevent the match.
\<close>

theorem first_fallback_latched:
  "((\<forall>x\<in>set states. \<not> exact_match x) \<longrightarrow>
      selectTrackedFlight states = List.find fallback_match states)
   \<and> scanStates rest (Some f) =
       (case List.find exact_match rest of Some e \<Rightarrow> Some e | None \<Rightarrow> Some f)
   \<and> (fallback_match x \<longleftrightarrow>
        cruise_candidate x \<and> (\<exists>s. state_callsign x = Some s \<and> startsWith (trim s) (utf16 ''BBC'')))
   \<and> ((\<forall>c\<in>set ws. js_whitespace c) \<longrightarrow>
        startsWith (trim (ws @ utf16 ''BBC'' @ tail)) (utf16 ''BBC''))"
  using fallback_match_callsign [of x] trim_leading_BBC [of ws tail]
  by (simp add: selectTrackedFlight_def scanStates_find find_none_all split: option.split)

theorem first_fallback_latched_witness:
  "\<not> exact_match bg202_ground \<and> \<not> exact_match bbc303_padded \<and> \<not> exact_match bbc777
   \<and> selectTrackedFlight [bg202_ground, bbc303_padded, bbc777] = Some bbc303_padded
   \<and> state_callsign bbc303_padded = Some ([0x00A0, 0x0020] @ utf16 ''BBC303'' @ [0x3000])
   \<and> js_whitespace 0x00A0 \<and> js_whitespace 0x0020
   \<and> trim ([0x00A0, 0x0020] @ utf16 ''BBC303'' @ [0x3000]) = utf16 ''BBC303''
   \<and> fallback_match bbc303_padded
   \<and> scanStates [bbc777] (Some bbc303) = Some bbc303
   \<and> scanStates [bbc777, bg202] (Some bbc303) = Some bg202"
  using first_fallback_latched [of "[bg202_ground, bbc303_padded, bbc777]" "[bbc777]" bbc303
      bbc303_padded "[0x00A0, 0x0020]" "utf16 ''303'' @ [0x3000]"]
    first_fallback_latched [of "[]" "[bbc777, bg202]" bbc303]
  by (simp add: bg202_def bbc777_def bbc303_def bg202_ground_def bbc303_padded_def selector_defs)

text \<open>
  C3 (as amended): the rule-1 filter excludes a record if and only if it is on-ground, or
  its latitude or longitude is missing or exactly 0, or its barometric altitude is missing
  or at most 6000 m; the scan passes over an excluded record without any effect. In
  particular an airborne record with both coordinates present and altitude exactly 6000 m
  is excluded.
\<close>

theorem rule1_filter:
  "((\<not> cruise_candidate s) \<longleftrightarrow>
      (on_ground s \<or> latitude s = None \<or> latitude s = Some 0
       \<or> longitude s = None \<or> longitude s = Some 0
       \<or> baro_altitude s = None \<or> (\<exists>al. baro_altitude s = Some al \<and> al \<le> 6000)))
   \<and> (\<not> cruise_candidate s \<longrightarrow> scanStates (s # rest) tf = scanStates rest tf)
   \<and> (baro_altitude s = Some 6000 \<longrightarrow> \<not> cruise_candidate s)"
  by (cases "latitude s"; cases "longitude s"; cases "baro_altitude s")
     (auto simp: cruise_candidate_def)

theorem rule1_filter_witness:
  "baro_altitude bg202_at_6000 = Some 6000
   \<and> \<not> on_ground bg202_at_6000
   \<and> latitude bg202_at_6000 = Some 38.25 \<and> longitude bg202_at_6000 = Some 45.5
   \<and> \<not> cruise_candidate bg202_at_6000
   \<and> scanStates (bg202_at_6000 # [bbc303]) None = scanStates [bbc303] None"
  using rule1_filter [of bg202_at_6000 "[bbc303]" None]
  by (simp add: bg202_def bbc303_def bg202_at_6000_def)

text \<open>
  C3 as stated fails: an airborne record with both coordinates and altitude exactly 6000 m
  is excluded (the test is \<open>altitude > 6000\<close>), so even BG202 itself is not selected there.
\<close>

theorem altitude_6000_counterexample:
  "\<not> on_ground bg202_at_6000 \<and> latitude bg202_at_6000 = Some 38.25
   \<and> longitude bg202_at_6000 = Some 45.5 \<and> baro_altitude bg202_at_6000 = Some 6000
   \<and> \<not> cruise_candidate bg202_at_6000
   \<and> exact_callsign (trimmed_callsign bg202_at_6000)
   \<and> selectTrackedFlight [bg202_at_6000] = None"
  by (simp add: bg202_def bg202_at_6000_def selector_defs selectTrackedFlight_def)

text \<open>
  C10: a record whose latitude is exactly 0 or whose longitude is exactly 0 is never the
  record selectTrackedFlight returns, and the scan passes over it without any effect,
  whatever its altitude, on-ground flag and callsign are.
\<close>

theorem zero_coordinate_never_selected:
  assumes "latitude s = Some 0 \<or> longitude s = Some 0"
  shows "selectTrackedFlight states \<noteq> Some s \<and> scanStates (s # rest) tf = scanStates rest tf"
proof -
  have nc: "\<not> cruise_candidate s"
    using assms by (auto simp: cruise_candidate_def)
  have "selectTrackedFlight states \<noteq> Some s"
  proof
    assume "selectTrackedFlight states = Some s"
    then have "cruise_candidate s"
      using scanStates_result [of states None s] by (simp add: selectTrackedFlight_def)
    with nc show False by simp
  qed
  with nc show ?thesis by simp
qed

theorem zero_coordinate_never_selected_witness:
  "longitude bg202_meridian = Some 0
   \<and> selectTrackedFlight [bg202_meridian, bbc303] \<noteq> Some bg202_meridian
   \<and> scanStates (bg202_meridian # [bbc303]) None = scanStates [bbc303] None"
  using zero_coordinate_never_selected [of bg202_meridian "[bg202_meridian, bbc303]" "[bbc303]" None]
  by (simp add: bg202_def bbc303_def bg202_meridian_def)





section \<open>The displayed state over the polls\<close>

lemma fetch_keeps_position:
  assumes "isLive (flightData st) \<longrightarrow>
             currentLat (flightData st) \<noteq> None \<and> currentLon (flightData st) \<noteq> None"
  shows "isLive (flightData (fetchFlightData now outcome st)) \<longrightarrow>
           currentLat (flightData (fetchFlightData now outcome st)) \<noteq> None
           \<and> currentLon (flightData (fetchFlightData now outcome st)) \<noteq> None"
  using assms
  by (auto simp: fetchFlightData_def on_throw_def buildFlightData_def
           split: feed_outcome.splits thrown.splits option.splits)

lemma run_polls_keeps_position:
  "(isLive (flightData st) \<longrightarrow>
      currentLat (flightData st) \<noteq> None \<and> currentLon (flightData st) \<noteq> None) \<Longrightarrow>
   isLive (flightData (run_polls polls st)) \<longrightarrow>
     currentLat (flightData (run_polls polls st)) \<noteq> None
     \<and> currentLon (flightData (run_polls polls st)) \<noteq> None"
proof (induction polls arbitrary: st)
  case Nil
  then show ?case by simp
next
  case (Cons p polls)
  obtain now outcome where p: "p = (now, outcome)" by (cases p)
  show ?case
    unfolding p run_polls.simps
    by (rule Cons.IH) (rule fetch_keeps_position [OF Cons.prems])
qed

text \<open>
  C8: in the initial state and in every state reached by any sequence of polls, isLive
  implies that currentLat and currentLon are both present.
\<close>

theorem live_has_position:
  "isLive (flightData (run_polls polls initialState)) \<longrightarrow>
     currentLat (flightData (run_polls polls initialState)) \<noteq> None
     \<and> currentLon (flightData (run_polls polls initialState)) \<noteq> None"
  by (rule run_polls_keeps_position) (simp add: initialState_def)

theorem live_has_position_witness:
  "isLive (flightData (run_polls [(1766000030, Payload (Some [bbc777, bg202])), (1766000060, NotOk)] initialState))
   \<and> currentLat (flightData (run_polls [(1766000030, Payload (Some [bbc777, bg202])), (1766000060, NotOk)] initialState)) = Some 38.25
   \<and> currentLon (flightData (run_polls [(1766000030, Payload (Some [bbc777, bg202])), (1766000060, NotOk)] initialState)) = Some 45.5
   \<and> \<not> isLive (flightData (run_polls [] initialState))"
  using live_has_position [of "[(1766000030, Payload (Some [bbc777, bg202])), (1766000060, NotOk)]"]
  by (simp add: fetchFlightData_def selectTrackedFlight_def bg202_def bbc777_def selector_defs
        initialState_def buildFlightData_def on_throw_def)

section \<open>The region label\<close>

lemma getCurrentRegion_threshold:
  "la \<noteq> 0 \<Longrightarrow> lo \<noteq> 0 \<Longrightarrow> getCurrentRegion la lo = region_by_threshold lo"
  by (simp add: getCurrentRegion_def region_by_threshold_def region_thresholds_def)

lemma fetch_keeps_region:
  assumes "currentRegion (flightData st) =
             (case currentLon (flightData st) of
                None \<Rightarrow> utf16 ''Searching...'' | Some lo \<Rightarrow> region_by_threshold lo)"
  shows "currentRegion (flightData (fetchFlightData now outcome st)) =
           (case currentLon (flightData (fetchFlightData now outcome st)) of
              None \<Rightarrow> utf16 ''Searching...'' | Some lo \<Rightarrow> region_by_threshold lo)"
  using assms
  by (auto simp: fetchFlightData_def on_throw_def buildFlightData_def getCurrentRegion_threshold
           split: feed_outcome.splits thrown.splits option.splits)

lemma run_polls_keeps_region:
  "currentRegion (flightData st) =
     (case currentLon (flightData st) of
        None \<Rightarrow> utf16 ''Searching...'' | Some lo \<Rightarrow> region_by_threshold lo) \<Longrightarrow>
   currentRegion (flightData (run_polls polls st)) =
     (case currentLon (flightData (run_polls polls st)) of
        None \<Rightarrow> utf16 ''Searching...'' | Some lo \<Rightarrow> region_by_threshold lo)"
proof (induction polls arbitrary: st)
  case Nil
  then show ?case by simp
next
  case (Cons p polls)
  obtain now outcome where p: "p = (now, outcome)" by (cases p)
  show ?case
    unfolding p run_polls.simps
    by (rule Cons.IH) (rule fetch_keeps_region [OF Cons.prems])
qed

lemma region_of_state:
  "currentRegion (flightData (run_polls polls initialState)) =
     (case currentLon (flightData (run_polls polls initialState)) of
        None \<Rightarrow> utf16 ''Searching...'' | Some lo \<Rightarrow> region_by_threshold lo)"
  by (rule run_polls_keeps_region) (simp add: initialState_def)

text \<open>A poll whose feed holds one BG202 record at cruise altitude stores that record.\<close>

lemma bg202_callsign_exact: "exact_callsign (trim (utf16 ''BG202   ''))"
  by (simp add: exact_callsign_def trim_def js_whitespace_def startsWith_def utf16_def)

lemma fetch_single_bg202:
  assumes "state_callsign r = Some (utf16 ''BG202   '')" and "\<not> on_ground r"
    and "latitude r = Some la" and "la \<noteq> 0" and "longitude r = Some lo" and "lo \<noteq> 0"
    and "baro_altitude r = Some 10000"
  shows "flightData (run_polls [(now, Payload (Some [r]))] initialState) = buildFlightData r la lo"
proof -
  have "utf16 ''BG202   '' \<noteq> []" by (simp add: utf16_def)
  then have "exact_callsign (trimmed_callsign r)"
    using assms(1) bg202_callsign_exact by (simp add: trimmed_callsign_def)
  moreover have "cruise_candidate r"
    using assms(2-) by (simp add: cruise_candidate_def)
  ultimately have "selectTrackedFlight [r] = Some r"
    by (simp add: selectTrackedFlight_def)
  then show ?thesis
    using assms(3-6) by (simp add: fetchFlightData_def)
qed

text \<open>
  C7: the region label is a function of the current longitude alone. In every state the
  page goes through, the label is the one that the ascending sequence of exclusive upper
  bounds 10, 30, 45, 60, 70, 80, 88 gives for the stored longitude, "Bangladesh" when the
  longitude is below none of them (and "Searching..." while no position is stored); so
  two states with the same longitude carry the same label whatever their latitudes, and
  longitude 5 gives "Western Europe", 65 "Central Asia" and 91 "Bangladesh". At every call
  the page makes (line 209, inside \<open>if (lat && lon)\<close>) getCurrentRegion returns that label
  and does not depend on the latitude.
\<close>

theorem region_by_longitude:
  "currentRegion (flightData (run_polls polls initialState)) =
     (case currentLon (flightData (run_polls polls initialState)) of
        None \<Rightarrow> utf16 ''Searching...'' | Some lo \<Rightarrow> region_by_threshold lo)
   \<and> (currentLon (flightData (run_polls polls initialState))
         = currentLon (flightData (run_polls polls' initialState)) \<longrightarrow>
       currentRegion (flightData (run_polls polls initialState))
         = currentRegion (flightData (run_polls polls' initialState)))
   \<and> (currentLon (flightData (run_polls polls initialState)) = Some 5 \<longrightarrow>
       currentRegion (flightData (run_polls polls initialState)) = utf16 ''Western Europe'')
   \<and> (currentLon (flightData (run_polls polls initialState)) = Some 65 \<longrightarrow>
       currentRegion (flightData (run_polls polls initialState)) = utf16 ''Central Asia'')
   \<and> (currentLon (flightData (run_polls polls initialState)) = Some 91 \<longrightarrow>
       currentRegion (flightData (run_polls polls initialState)) = utf16 ''Bangladesh'')
   \<and> (la \<noteq> 0 \<and> la' \<noteq> 0 \<and> lo \<noteq> 0 \<longrightarrow>
       getCurrentRegion la lo = getCurrentRegion la' lo
       \<and> getCurrentRegion la lo = region_by_threshold lo)
   \<and> sorted_wrt (<) (map fst region_thresholds)"
proof -
  have r: "region_by_threshold 5 = utf16 ''Western Europe''"
    "region_by_threshold 65 = utf16 ''Central Asia''"
    "region_by_threshold 91 = utf16 ''Bangladesh''"
    by (simp_all add: region_by_threshold_def region_thresholds_def)
  have s: "sorted_wrt (<) (map fst region_thresholds)"
    by (simp add: region_thresholds_def)
  show ?thesis
    using region_of_state [of polls] region_of_state [of polls'] r s
    by (simp add: getCurrentRegion_threshold)
qed

theorem region_by_longitude_witness:
  "currentLat (flightData (run_polls [(1766000030, Payload (Some [bg202]))] initialState)) = Some 38.25
   \<and> currentLat (flightData (run_polls [(1766000030, Payload (Some [bg202_south]))] initialState)) = Some 30
   \<and> currentLon (flightData (run_polls [(1766000030, Payload (Some [bg202]))] initialState)) = Some 45.5
   \<and> currentLon (flightData (run_polls [(1766000030, Payload (Some [bg202_south]))] initialState)) = Some 45.5
   \<and> currentRegion (flightData (run_polls [(1766000030, Payload (Some [bg202]))] initialState))
       = currentRegion (flightData (run_polls [(1766000030, Payload (Some [bg202_south]))] initialState))
   \<and> currentRegion (flightData (run_polls [(1766000030, Payload (Some [bg202]))] initialState)) = utf16 ''Iran''
   \<and> currentLon (flightData (run_polls [(1766000030, Payload (Some [bg202_lon5]))] initialState)) = Some 5
   \<and> currentRegion (flightData (run_polls [(1766000030, Payload (Some [bg202_lon5]))] initialState))
       = utf16 ''Western Europe''
   \<and> currentLon (flightData (run_polls [(1766000030, Payload (Some [bg202_lon65]))] initialState)) = Some 65
   \<and> currentRegion (flightData (run_polls [(1766000030, Payload (Some [bg202_lon65]))] initialState))
       = utf16 ''Central Asia''
   \<and> currentLon (flightData (run_polls [(1766000030, Payload (Some [bg202_lon91]))] initialState)) = Some 91
   \<and> currentRegion (flightData (run_polls [(1766000030, Payload (Some [bg202_lon91]))] initialState))
       = utf16 ''Bangladesh''
   \<and> getCurrentRegion 38.25 45.5 = getCurrentRegion 30 45.5"
proof -
  have f: "flightData (run_polls [(1766000030, Payload (Some [bg202]))] initialState)
             = buildFlightData bg202 38.25 45.5"
    "flightData (run_polls [(1766000030, Payload (Some [bg202_south]))] initialState)
             = buildFlightData bg202_south 30 45.5"
    "flightData (run_polls [(1766000030, Payload (Some [bg202_lon5]))] initialState)
             = buildFlightData bg202_lon5 50.5 5"
    "flightData (run_polls [(1766000030, Payload (Some [bg202_lon65]))] initialState)
             = buildFlightData bg202_lon65 36 65"
    "flightData (run_polls [(1766000030, Payload (Some [bg202_lon91]))] initialState)
             = buildFlightData bg202_lon91 24.5 91"
    by (rule fetch_single_bg202;
        simp add: bg202_def bg202_south_def bg202_lon5_def bg202_lon65_def bg202_lon91_def)+
  show ?thesis
    using region_by_longitude [of "[(1766000030, Payload (Some [bg202]))]"
        "[(1766000030, Payload (Some [bg202_south]))]" "38.25" 30 "45.5"]
      region_by_longitude [of "[(1766000030, Payload (Some [bg202_lon5]))]" "[]" 1 1 1]
      region_by_longitude [of "[(1766000030, Payload (Some [bg202_lon65]))]" "[]" 1 1 1]
      region_by_longitude [of "[(1766000030, Payload (Some [bg202_lon91]))]" "[]" 1 1 1]
    unfolding f
    by (simp add: buildFlightData_def getCurrentRegion_def)
qed

section \<open>The haversine distance in exact arithmetic\<close>

text \<open>
  The facts of this section hold for \<open>calculateDistance\<close> on the reals. They do not carry
  over to the doubles of the page without further argument: for nearly antipodal points
  the rounded \<open>a\<close> can exceed 1, and the page then computes NaN.
\<close>

lemma haversine_a_sym: "haversine_a lat2 lon2 lat1 lon1 = haversine_a lat1 lon1 lat2 lon2"
proof -
  have neg: "(u - v) * pi / 180 / 2 = - ((v - u) * pi / 180 / 2)" for u v :: real
  proof -
    have "u - v = - (v - u)" by simp
    then show ?thesis by (simp only: mult_minus_left minus_divide_left [symmetric])
  qed
  have e1: "(lat1 - lat2) * pi / 180 / 2 = - ((lat2 - lat1) * pi / 180 / 2)"
    by (rule neg)
  have e2: "(lon1 - lon2) * pi / 180 / 2 = - ((lon2 - lon1) * pi / 180 / 2)"
    by (rule neg)
  show ?thesis
    unfolding haversine_a_def Let_def e1 e2 sin_minus
    by (simp add: mult.commute)
qed

lemma haversine_a_same: "haversine_a la lo la lo = 0"
  by (simp add: haversine_a_def)

lemma atan2_zero_one: "atan2 0 1 = 0"
  by (simp add: atan2_def)

text \<open>On the reals the distance is symmetric, and 0 from a point to itself.\<close>

lemma calculateDistance_symmetric:
  "calculateDistance lat1 lon1 lat2 lon2 = calculateDistance lat2 lon2 lat1 lon1
   \<and> calculateDistance la lo la lo = 0"
  by (simp add: calculateDistance_def haversine_a_sym [of lat2 lon2 lat1 lon1] haversine_a_same atan2_zero_one)

text \<open>
  The argument of the square roots lies in \<open>[0, 1]\<close> for all inputs, so that neither
  \<open>Math.sqrt\<close> is applied to a negative number.
\<close>

lemma sin_half_squared: "sin (x / 2) * sin (x / 2) = (1 - cos x) / 2" for x :: real
proof -
  have "cos x = cos (2 * (x / 2))" by simp
  also have "\<dots> = 1 - 2 * (sin (x / 2))\<^sup>2" by (rule cos_double_sin)
  finally show ?thesis by (simp add: power2_eq_square)
qed

lemma unit_products:
  fixes s1 c1 s2 c2 k :: real
  assumes u1: "c1 * c1 + s1 * s1 = 1" and u2: "c2 * c2 + s2 * s2 = 1" and k: "\<bar>k\<bar> \<le> 1"
  shows "\<bar>s1 * s2 + c1 * c2 * k\<bar> \<le> 1"
proof -
  have a: "2 * \<bar>s1 * s2\<bar> \<le> s1 * s1 + s2 * s2"
    using sum_squares_bound [of "\<bar>s1\<bar>" "\<bar>s2\<bar>"] by (simp add: abs_mult power2_eq_square algebra_simps)
  have b: "2 * \<bar>c1 * c2\<bar> \<le> c1 * c1 + c2 * c2"
    using sum_squares_bound [of "\<bar>c1\<bar>" "\<bar>c2\<bar>"] by (simp add: abs_mult power2_eq_square algebra_simps)
  have c: "\<bar>c1 * c2 * k\<bar> \<le> \<bar>c1 * c2\<bar>"
    using k mult_left_mono [of "\<bar>k\<bar>" 1 "\<bar>c1 * c2\<bar>"] by (simp add: abs_mult)
  have "\<bar>s1 * s2 + c1 * c2 * k\<bar> \<le> \<bar>s1 * s2\<bar> + \<bar>c1 * c2 * k\<bar>"
    by (rule abs_triangle_ineq)
  with a b c u1 u2 show ?thesis by linarith
qed

lemma haversine_a_alt:
  "2 * haversine_a lat1 lon1 lat2 lon2 =
     1 - (sin (lat1 * pi / 180) * sin (lat2 * pi / 180)
          + cos (lat1 * pi / 180) * cos (lat2 * pi / 180) * cos ((lon2 - lon1) * pi / 180))"
proof -
  define p1 where "p1 = lat1 * pi / 180"
  define p2 where "p2 = lat2 * pi / 180"
  define dLat where "dLat = (lat2 - lat1) * pi / 180"
  define dLon where "dLon = (lon2 - lon1) * pi / 180"
  have d: "dLat = p2 - p1"
    by (simp add: dLat_def p1_def p2_def left_diff_distrib diff_divide_distrib)
  have cd: "cos dLat = cos p2 * cos p1 + sin p2 * sin p1"
    unfolding d by (rule cos_diff)
  have "2 * haversine_a lat1 lon1 lat2 lon2 =
          2 * (sin (dLat / 2) * sin (dLat / 2)) + 2 * (cos p1 * cos p2 * (sin (dLon / 2) * sin (dLon / 2)))"
    by (simp add: haversine_a_def Let_def p1_def p2_def dLat_def dLon_def algebra_simps)
  also have "\<dots> = (1 - cos dLat) + cos p1 * cos p2 * (1 - cos dLon)"
    unfolding sin_half_squared by simp
  also have "\<dots> = 1 - (sin p1 * sin p2 + cos p1 * cos p2 * cos dLon)"
    unfolding cd by (simp add: algebra_simps)
  finally show ?thesis
    by (simp add: p1_def p2_def dLon_def)
qed

lemma haversine_a_range: "0 \<le> haversine_a lat1 lon1 lat2 lon2 \<and> haversine_a lat1 lon1 lat2 lon2 \<le> 1"
proof -
  have "\<bar>sin (lat1 * pi / 180) * sin (lat2 * pi / 180)
          + cos (lat1 * pi / 180) * cos (lat2 * pi / 180) * cos ((lon2 - lon1) * pi / 180)\<bar> \<le> 1"
    by (rule unit_products) (simp_all add: abs_cos_le_one)
  then show ?thesis
    using haversine_a_alt [of lat1 lon1 lat2 lon2] by linarith
qed

lemma atan2_nonneg: "0 \<le> y \<Longrightarrow> 0 \<le> x \<Longrightarrow> 0 \<le> atan2 y x"
  by (auto simp: atan2_def)

lemma atan2_pos: "0 < y \<Longrightarrow> 0 \<le> x \<Longrightarrow> 0 < atan2 y x"
  by (auto simp: atan2_def)

lemma calculateDistance_nonneg: "0 \<le> calculateDistance lat1 lon1 lat2 lon2"
  using haversine_a_range [of lat1 lon1 lat2 lon2]
  by (simp add: calculateDistance_def Let_def atan2_nonneg)

lemma calculateDistance_pos:
  "0 < haversine_a lat1 lon1 lat2 lon2 \<Longrightarrow> 0 < calculateDistance lat1 lon1 lat2 lon2"
  using haversine_a_range [of lat1 lon1 lat2 lon2]
  by (simp add: calculateDistance_def Let_def atan2_pos)

lemma departure_arrival_a_pos:
  "0 < haversine_a (lat departure) (lon departure) (lat arrival) (lon arrival)"
proof -
  define t :: real where "t = 27.6597 * pi / 360"
  have t: "0 < t" "t < pi"
    using pi_gt_zero by (simp_all add: t_def)
  have x: "(23.8103 - 51.47) * pi / 180 / 2 = - t"
    by (simp add: t_def)
  have s: "0 < sin t * sin t"
    using sin_gt_zero [OF t] by simp
  have c1: "0 < cos (51.47 * pi / 180)"
    by (rule cos_gt_zero) (use pi_gt_zero in simp_all)
  have c2: "0 < cos (23.8103 * pi / 180)"
    by (rule cos_gt_zero) (use pi_gt_zero in simp_all)
  have r: "0 \<le> cos (51.47 * pi / 180) * cos (23.8103 * pi / 180) * (u * u)" for u :: real
    using c1 c2 by simp
  have "haversine_a 51.47 (- 0.4543) 23.8103 90.4125 =
          sin (- t) * sin (- t)
          + cos (51.47 * pi / 180) * cos (23.8103 * pi / 180)
            * (sin ((90.4125 - (- 0.4543)) * pi / 180 / 2) * sin ((90.4125 - (- 0.4543)) * pi / 180 / 2))"
    unfolding haversine_a_def Let_def x by (simp only: mult.assoc)
  also have "\<dots> > 0"
    using s r [of "sin ((90.4125 - (- 0.4543)) * pi / 180 / 2)"] by (simp only: sin_minus)
  finally show ?thesis
    by (simp add: departure_def arrival_def)
qed

text \<open>On the reals the progress fraction lies in \<open>[0, 1]\<close>.\<close>

lemma progressFraction_range: "0 \<le> progressFraction la lo \<and> progressFraction la lo \<le> 1"
  using calculateDistance_pos [OF departure_arrival_a_pos]
    calculateDistance_nonneg [of "lat departure" "lon departure" la lo]
  by (simp add: progressFraction_def Let_def)

section \<open>The estimated time of arrival\<close>

text \<open>
  Rational bounds on \<open>pi\<close>, from \<open>sin (pi / 6) = 1 / 2\<close> and the Maclaurin expansion of
  the sine with its remainder.
\<close>

lemma sin_pi6_taylor:
  fixes x :: real
  assumes "x = pi / 6"
  shows "\<bar>1 / 2 - (x - x ^ 3 / 6)\<bar> \<le> x ^ 5 / 120"
proof -
  have s: "(\<Sum>m<5. sin_coeff m * x ^ m) = x - x ^ 3 / 6"
    by (simp add: eval_nat_numeral lessThan_Suc sin_coeff_Suc cos_coeff_Suc)
  have "0 \<le> x" unfolding assms using pi_gt_zero by simp
  then have ax: "\<bar>x\<bar> ^ 5 = x ^ 5" by simp
  have sx: "sin x = 1 / 2" unfolding assms by (rule sin_30)
  have "\<bar>sin x - (x - x ^ 3 / 6)\<bar> \<le> x ^ 5 / 120"
    using Maclaurin_sin_bound [of x 5] unfolding s ax by (simp add: fact_numeral)
  then show ?thesis unfolding sx .
qed

lemma upper_step:
  fixes x c :: real
  assumes "0 \<le> x" and "x \<le> c" and "x - x ^ 3 / 6 - x ^ 5 / 120 \<le> 1 / 2"
  shows "x * (1 - c ^ 2 / 6 - c ^ 4 / 120) \<le> 1 / 2"
proof -
  have p2: "x ^ 2 \<le> c ^ 2" using assms by (intro power_mono) auto
  have p4: "x ^ 4 \<le> c ^ 4" using assms by (intro power_mono) auto
  have "x * x ^ 2 \<le> x * c ^ 2" using p2 assms(1) by (rule mult_left_mono)
  then have a: "x ^ 3 \<le> x * c ^ 2" by (simp add: eval_nat_numeral)
  have "x * x ^ 4 \<le> x * c ^ 4" using p4 assms(1) by (rule mult_left_mono)
  then have b: "x ^ 5 \<le> x * c ^ 4" by (simp add: eval_nat_numeral)
  have "x * (1 - c ^ 2 / 6 - c ^ 4 / 120) = x - (x * c ^ 2) / 6 - (x * c ^ 4) / 120"
    by (simp add: algebra_simps)
  with a b assms(3) show ?thesis by linarith
qed

lemma lower_step:
  fixes x b c :: real
  assumes "0 \<le> b" and "b \<le> x" and "x \<le> c" and "1 / 2 \<le> x - x ^ 3 / 6 + x ^ 5 / 120"
  shows "1 / 2 \<le> x * (1 - b ^ 2 / 6 + c ^ 4 / 120)"
proof -
  have x0: "0 \<le> x" using assms by linarith
  have p2: "b ^ 2 \<le> x ^ 2" using assms by (intro power_mono) auto
  have p4: "x ^ 4 \<le> c ^ 4" using assms x0 by (intro power_mono) auto
  have "x * b ^ 2 \<le> x * x ^ 2" using p2 x0 by (rule mult_left_mono)
  then have a: "x * b ^ 2 \<le> x ^ 3" by (simp add: eval_nat_numeral)
  have "x * x ^ 4 \<le> x * c ^ 4" using p4 x0 by (rule mult_left_mono)
  then have b: "x ^ 5 \<le> x * c ^ 4" by (simp add: eval_nat_numeral)
  have "x * (1 - b ^ 2 / 6 + c ^ 4 / 120) = x - (x * b ^ 2) / 6 + (x * c ^ 4) / 120"
    by (simp add: algebra_simps)
  with a b assms(4) show ?thesis by linarith
qed

lemma pi_bounds: "3.1398 \<le> pi \<and> pi \<le> 3.1566"
proof -
  define x :: real where "x = pi / 6"
  have t: "\<bar>1 / 2 - (x - x ^ 3 / 6)\<bar> \<le> x ^ 5 / 120"
    by (rule sin_pi6_taylor) (simp add: x_def)
  have up: "x - x ^ 3 / 6 - x ^ 5 / 120 \<le> 1 / 2" using t by linarith
  have lo: "1 / 2 \<le> x - x ^ 3 / 6 + x ^ 5 / 120" using t by linarith
  have x0: "0 \<le> x" using pi_gt_zero by (simp add: x_def)
  have u0: "x \<le> 2 / 3" using pi_less_4 by (simp add: x_def)
  have u1: "x \<le> 0.541"
    using upper_step [OF x0 u0 up] by (simp add: power2_eq_square eval_nat_numeral)
  have u2: "x \<le> 0.5261"
    using upper_step [OF x0 u1 up] by (simp add: power2_eq_square eval_nat_numeral)
  have l1: "0.4996 \<le> x"
    using lower_step [where b = 0, OF _ x0 u2 lo] by (simp add: power2_eq_square eval_nat_numeral)
  have l2: "0.5213 \<le> x"
    using lower_step [OF _ l1 u2 lo] by (simp add: power2_eq_square eval_nat_numeral)
  have l3: "0.5233 \<le> x"
    using lower_step [OF _ l2 u2 lo] by (simp add: power2_eq_square eval_nat_numeral)
  from l3 u2 show ?thesis by (simp add: x_def)
qed

text \<open>Along a meridian the haversine distance is the difference of latitude, in radians, times the radius.\<close>

lemma calculateDistance_meridian:
  assumes "lat2 \<le> lat1" and "lat1 - lat2 < 180"
  shows "calculateDistance lat1 lo lat2 lo = 6371 * ((lat1 - lat2) * pi / 180)"
proof -
  define t where "t = (lat1 - lat2) * pi / 360"
  have t0: "0 \<le> t" using assms(1) pi_gt_zero by (simp add: t_def)
  have "(lat1 - lat2) * pi < 180 * pi"
    using assms(2) pi_gt_zero by (rule mult_strict_right_mono)
  then have t1: "t < pi / 2" by (simp add: t_def)
  have x: "(lat2 - lat1) * pi / 180 / 2 = - t"
  proof -
    have "lat2 - lat1 = - (lat1 - lat2)" by simp
    then show ?thesis by (simp only: t_def mult_minus_left minus_divide_left [symmetric])
  qed
  have a: "haversine_a lat1 lo lat2 lo = sin t * sin t"
    unfolding haversine_a_def Let_def x by simp
  have st: "0 \<le> sin t" using t0 t1 pi_gt_zero by (intro sin_ge_zero) linarith+
  have ct: "0 < cos t" using t0 t1 by (intro cos_gt_zero_pi) linarith+
  have "1 - sin t * sin t = cos t * cos t"
    using sin_cos_squared_add3 [of t] by linarith
  then have r2: "sqrt (1 - sin t * sin t) = cos t" using ct by simp
  have r1: "sqrt (sin t * sin t) = sin t" using st by simp
  have "atan2 (sin t) (cos t) = arctan (tan t)"
    using ct by (simp add: atan2_def tan_def)
  also have "\<dots> = t"
    using t0 t1 by (intro arctan_tan) linarith+
  finally have "atan2 (sin t) (cos t) = t" .
  then have "calculateDistance lat1 lo lat2 lo = 6371 * (2 * t)"
    unfolding calculateDistance_def Let_def a r1 r2 by simp
  then show ?thesis by (simp add: t_def)
qed

lemma fetch_bg202_north:
  "flightData (fetchFlightData now (Payload (Some [bg202_north])) initialState) =
     buildFlightData bg202_north 31.0103 90.4125"
  by (simp add: fetchFlightData_def selectTrackedFlight_def bg202_def bg202_north_def selector_defs)

lemma speed_bg202_north: "speed (buildFlightData bg202_north la lo) = 500"
  by (simp add: buildFlightData_def bg202_def bg202_north_def round_def)

lemma calculateETA_split:
  assumes "currentLat fd = Some la" and "la \<noteq> 0" and "currentLon fd = Some lo'"
    and "speed fd = v" and "v \<noteq> 0"
    and "calculateDistance la lo' (lat arrival) (lon arrival) / (v * 1.60934) = hr"
  shows "calculateETA fd = \<lparr>hours = \<lfloor>hr\<rfloor>, minutes = round ((hr - of_int \<lfloor>hr\<rfloor>) * 60)\<rparr>"
  using assms(1-5) unfolding assms(6) [symmetric] calculateETA_def Let_def by simp

text \<open>
  On the reals, for a positive speed the hours are never negative and the minutes lie in
  \<open>[0, 60]\<close>.
\<close>

lemma calculateETA_range:
  assumes "0 < speed fd"
  shows "0 \<le> hours (calculateETA fd) \<and> 0 \<le> minutes (calculateETA fd) \<and> minutes (calculateETA fd) \<le> 60"
proof (cases "truthy_num (currentLat fd)")
  case False
  then show ?thesis by (simp add: calculateETA_def)
next
  case True
  define hr where "hr = calculateDistance (case currentLat fd of Some x \<Rightarrow> x | None \<Rightarrow> 0)
                                 (case currentLon fd of Some x \<Rightarrow> x | None \<Rightarrow> 0)
                                 (lat arrival) (lon arrival) / (speed fd * 1.60934)"
  have e: "calculateETA fd = \<lparr>hours = \<lfloor>hr\<rfloor>, minutes = round ((hr - of_int \<lfloor>hr\<rfloor>) * 60)\<rparr>"
    using True assms unfolding hr_def calculateETA_def Let_def by simp
  have "0 \<le> hr"
    unfolding hr_def using assms calculateDistance_nonneg by (intro divide_nonneg_nonneg) simp_all
  then have h0: "0 \<le> \<lfloor>hr\<rfloor>" by simp
  have f: "0 \<le> hr - of_int \<lfloor>hr\<rfloor>" "hr - of_int \<lfloor>hr\<rfloor> < 1" by linarith+
  have "0 \<le> round ((hr - of_int \<lfloor>hr\<rfloor>) * 60)"
    unfolding round_def using f by (simp add: le_floor_iff)
  moreover have "round ((hr - of_int \<lfloor>hr\<rfloor>) * 60) \<le> 60"
    unfolding round_def using f by (simp add: floor_le_iff)
  ultimately show ?thesis using h0 by (simp add: e)
qed

text \<open>
  C4: for a present position and a positive speed, calculateETA should return minutes in
  \<open>[0, 59]\<close>, carrying a remainder that rounds to 60 into the hours. The code has no carry:
  for BG202 reported at 31.0103 N, 90.4125 E at 223.5 m/s (500 mph), 800.6 km from the
  arrival point, the remainder is 59.7 minutes and calculateETA returns 0 hours 60 minutes.
\<close>

theorem eta_minutes_reach_60:
  "calculateETA (flightData (fetchFlightData now (Payload (Some [bg202_north])) initialState))
     = \<lparr>hours = 0, minutes = 60\<rparr>"
proof -
  define h :: real where "h = 6371 * ((31.0103 - 23.8103) * pi / 180) / (500 * 1.60934)"
  have al: "lat arrival = 23.8103" "lon arrival = 90.4125"
    by (simp_all add: arrival_def)
  have d: "calculateDistance 31.0103 90.4125 (lat arrival) (lon arrival)
             = 6371 * ((31.0103 - 23.8103) * pi / 180)"
    unfolding al by (rule calculateDistance_meridian) simp_all
  have lo: "119 / 120 \<le> h" using pi_bounds by (simp add: h_def)
  have up: "h < 1" using pi_bounds by (simp add: h_def)
  have fl: "\<lfloor>h\<rfloor> = 0" using lo up by (simp add: floor_eq_iff)
  have "60 \<le> (h - 0) * 60 + 1 / 2" "(h - 0) * 60 + 1 / 2 < 61" using lo up by simp_all
  then have rd: "round ((h - of_int 0) * 60) = 60"
    unfolding round_def by (simp add: floor_eq_iff)
  have "calculateETA (buildFlightData bg202_north 31.0103 90.4125) =
          \<lparr>hours = \<lfloor>h\<rfloor>, minutes = round ((h - of_int \<lfloor>h\<rfloor>) * 60)\<rparr>"
  proof (rule calculateETA_split)
    show "currentLat (buildFlightData bg202_north 31.0103 90.4125) = Some 31.0103"
      by (simp add: buildFlightData_def)
    show "(31.0103::real) \<noteq> 0" by simp
    show "currentLon (buildFlightData bg202_north 31.0103 90.4125) = Some 90.4125"
      by (simp add: buildFlightData_def)
    show "speed (buildFlightData bg202_north 31.0103 90.4125) = 500"
      by (rule speed_bg202_north)
    show "(500::real) \<noteq> 0" by simp
    show "calculateDistance 31.0103 90.4125 (lat arrival) (lon arrival) / (500 * 1.60934) = h"
      unfolding d h_def ..
  qed
  then show ?thesis
    unfolding fetch_bg202_north fl rd .
qed

theorem eta_minutes_reach_60_witness:
  "truthy_num (currentLat (flightData (fetchFlightData 1766000030 (Payload (Some [bg202_north])) initialState)))
   \<and> speed (flightData (fetchFlightData 1766000030 (Payload (Some [bg202_north])) initialState)) = 500
   \<and> calculateETA (flightData (fetchFlightData 1766000030 (Payload (Some [bg202_north])) initialState))
       = \<lparr>hours = 0, minutes = 60\<rparr>"
  using eta_minutes_reach_60 [of 1766000030]
  by (simp add: fetch_bg202_north speed_bg202_north) (simp add: buildFlightData_def)

end
